theory Spec2Isabelle
  imports Complex_Main "HOL-Library.Stream"
begin

section \<open>Python values and exceptions\<close>

text \<open>
  The program is \<^verbatim>\<open>assistant.py\<close>: a command-line loop around a hosted assistant
  service. Its functions only talk to the outside world (standard input and output, the
  remote service, the clock, the file system, a child process), so the model threads an
  explicit world through every call, and every call that Python can leave by an exception
  returns a sum: \<open>Inl\<close> the exception, \<open>Inr\<close> the value.

  An exception is its class and the text \<^verbatim>\<open>str(e)\<close> gives. \<open>OpenAIError\<close> stands for the
  library's whole family of request errors, the classes \<^verbatim>\<open>except OpenAIError\<close> catches.
\<close>

datatype exn_class =
    OpenAIError
  | IndexError
  | KeyError
  | TypeError
  | AttributeError
  | JSONDecodeError
  | FileNotFoundError
  | PermissionError
  | OSError
  | UnicodeEncodeError
  | UnicodeDecodeError
  | EOFError
  | OtherException

type_synonym exn = "exn_class \<times> string"

definition exn_str :: "exn \<Rightarrow> string" where
  "exn_str e = snd e"

definition is_OpenAIError :: "exn \<Rightarrow> bool" where
  "is_OpenAIError e = (fst e = OpenAIError)"

text \<open>
  The values the driver handles where Python allows \<^verbatim>\<open>None\<close> next to a string: the
  fields of the tool call's arguments, the completion text, the expert's reply.
\<close>

datatype pyval = PyNone | PyStr string

text \<open>What an f-string field \<^verbatim>\<open>{v}\<close> renders.\<close>

fun py_format :: "pyval \<Rightarrow> string" where
  "py_format PyNone = ''None''"
| "py_format (PyStr s) = s"

text \<open>Truthiness, as \<^verbatim>\<open>if v:\<close> and \<^verbatim>\<open>v or ''\<close> test it.\<close>

fun truthy :: "pyval \<Rightarrow> bool" where
  "truthy PyNone = False"
| "truthy (PyStr s) = (s \<noteq> [])"

definition LF :: char where
  "LF = CHR 0x0A"

section \<open>The data of the remote service\<close>

text \<open>
  A tool call carries its arguments as JSON text, which the driver only reads through
  \<^verbatim>\<open>json.loads\<close>. The field \<open>arguments\<close> is what \<^verbatim>\<open>json.loads\<close> makes of that text: the
  exception it raises, or the dictionary. The values of the dictionary are strings or
  null, as the tool's schema \<^verbatim>\<open>{name, persona?, instructions}\<close> has them.
\<close>

record tool_call =
  tc_id :: string
  function_name :: string
  arguments :: "exn + (string \<rightharpoonup> pyval)"

text \<open>
  \<open>required_action\<close> is \<^verbatim>\<open>run.required_action.submit_tool_outputs.tool_calls\<close>, \<open>None\<close> when
  the run has no required action.
\<close>

record run =
  run_id :: string
  thread_id :: string
  status :: string
  required_action :: "tool_call list option"

record tool_output =
  tool_call_id :: string
  output_text :: string

datatype content_block = TextBlock string | ImageFileBlock

record message =
  msg_id :: string
  msg_content :: "content_block list"

record chat_message =
  role :: string
  content :: pyval

record payload =
  model :: string
  messages :: "chat_message list"
  temperature :: rat

section \<open>The world\<close>

text \<open>
  Everything the process does to the outside is appended to a trace, in order. The remote
  calls are the last five events.
\<close>

datatype event =
    Print string
  | ReadLine
  | Sleep nat
  | CreateAndRun string string
  | RunsRetrieve string string
  | SubmitToolOutputs string string "tool_output list"
  | MessagesList string "string option"
  | ChatCompletionsCreate payload

fun is_remote_call :: "event \<Rightarrow> bool" where
  "is_remote_call (Print s) = False"
| "is_remote_call ReadLine = False"
| "is_remote_call (Sleep n) = False"
| "is_remote_call (CreateAndRun a u) = True"
| "is_remote_call (RunsRetrieve t r) = True"
| "is_remote_call (SubmitToolOutputs t r outs) = True"
| "is_remote_call (MessagesList t a) = True"
| "is_remote_call (ChatCompletionsCreate p) = True"

fun is_submit :: "event \<Rightarrow> bool" where
  "is_submit (SubmitToolOutputs t r outs) = True"
| "is_submit e = False"

text \<open>
  What the remote service answers is not decided by the program. The world holds, for each
  endpoint, the stream of answers its successive calls will get (an exception or a value):
  a call takes the head of its stream. \<open>client_init\<close> is the exception the constructor
  \<^verbatim>\<open>OpenAI()\<close> raises, if any; \<open>stdin\<close> the lines still to be read.
\<close>

record world =
  client_init :: "exn option"
  stdin :: "string list"
  create_and_run_resps :: "(exn + run) stream"
  retrieve_resps :: "(exn + run) stream"
  submit_resps :: "(exn + run) stream"
  messages_resps :: "(exn + message list) stream"
  completions_resps :: "(exn + pyval list) stream"
  trace :: "event list"

definition emit :: "event \<Rightarrow> world \<Rightarrow> world" where
  "emit e w = w\<lparr>trace := trace w @ [e]\<rparr>"

definition py_print :: "string \<Rightarrow> world \<Rightarrow> world" where
  "py_print s w = emit (Print s) w"

definition time_sleep :: "nat \<Rightarrow> world \<Rightarrow> world" where
  "time_sleep n w = emit (Sleep n) w"

text \<open>\<^verbatim>\<open>input()\<close>: the next line without its newline, \<^verbatim>\<open>EOFError\<close> at the end of input.\<close>

definition py_input :: "world \<Rightarrow> (exn + string) \<times> world" where
  "py_input w =
     (case stdin w of
        [] \<Rightarrow> (Inl (EOFError, ''EOF when reading a line''), emit ReadLine w)
      | l # ls \<Rightarrow> (Inr l, emit ReadLine (w\<lparr>stdin := ls\<rparr>)))"

definition threads_create_and_run :: "string \<Rightarrow> string \<Rightarrow> world \<Rightarrow> (exn + run) \<times> world" where
  "threads_create_and_run assistant_id user_content w =
     (shd (create_and_run_resps w),
      emit (CreateAndRun assistant_id user_content)
        (w\<lparr>create_and_run_resps := stl (create_and_run_resps w)\<rparr>))"

definition runs_retrieve :: "string \<Rightarrow> string \<Rightarrow> world \<Rightarrow> (exn + run) \<times> world" where
  "runs_retrieve tid rid w =
     (shd (retrieve_resps w),
      emit (RunsRetrieve tid rid) (w\<lparr>retrieve_resps := stl (retrieve_resps w)\<rparr>))"

definition runs_submit_tool_outputs ::
  "string \<Rightarrow> string \<Rightarrow> tool_output list \<Rightarrow> world \<Rightarrow> (exn + run) \<times> world" where
  "runs_submit_tool_outputs tid rid outs w =
     (shd (submit_resps w),
      emit (SubmitToolOutputs tid rid outs) (w\<lparr>submit_resps := stl (submit_resps w)\<rparr>))"

definition messages_list :: "string \<Rightarrow> string option \<Rightarrow> world \<Rightarrow> (exn + message list) \<times> world" where
  "messages_list tid after w =
     (shd (messages_resps w),
      emit (MessagesList tid after) (w\<lparr>messages_resps := stl (messages_resps w)\<rparr>))"

definition chat_completions_create :: "payload \<Rightarrow> world \<Rightarrow> (exn + pyval list) \<times> world" where
  "chat_completions_create p w =
     (shd (completions_resps w),
      emit (ChatCompletionsCreate p) (w\<lparr>completions_resps := stl (completions_resps w)\<rparr>))"

section \<open>Constants\<close>

text \<open>The colour codes of colorama: ANSI escape sequences.\<close>

definition Fore_RED :: string where
  "Fore_RED = CHR 0x1B # ''[31m''"

definition Fore_GREEN :: string where
  "Fore_GREEN = CHR 0x1B # ''[32m''"

definition Fore_YELLOW :: string where
  "Fore_YELLOW = CHR 0x1B # ''[33m''"

definition Fore_BLUE :: string where
  "Fore_BLUE = CHR 0x1B # ''[34m''"

definition Fore_CYAN :: string where
  "Fore_CYAN = CHR 0x1B # ''[36m''"

definition Style_RESET_ALL :: string where
  "Style_RESET_ALL = CHR 0x1B # ''[0m''"

definition continuation_prompt :: string where
  "continuation_prompt =
     ''Based on the information given, what are the most logical next steps or conclusions?''
     @ [LF] @
     ''Analyze all previous interaction and ask for clarification from a different expert if one contradicts itself.''
     @ [LF] @
     ''Please make sure that the solution is accurate, directly answers the original question, and follows all given constraints.''
     @ [LF] @
     ''Additionally, review the final solution or have another expert(s) verify it.''
     @ [LF] @
     ''If you were asked for any clarification, please provide it. Remember that experts cannot recall any previous interaction so provide all necessary details.''"

definition assistant_id :: string where
  "assistant_id = ''asst_5ulsgCs9B3ESY3tfs9Ohtvyb''"

section \<open>The functions of the program\<close>

definition handle_user_input :: "world \<Rightarrow> (exn + string) \<times> world" where
  "handle_user_input w =
     (let w1 = py_print (Fore_CYAN @ '' User Command:'') w;
          w2 = py_print Style_RESET_ALL w1
      in py_input w2)"

text \<open>
  \<^verbatim>\<open>handle_contact_expert\<close>: the \<^verbatim>\<open>try\<close> covers the request and the reading of the first
  choice; only an \<^verbatim>\<open>OpenAIError\<close> is caught, printed, and the function then falls off its
  end, returning \<^verbatim>\<open>None\<close>. The remote answer is the list of the choices' message contents.
\<close>

definition expert_payload :: "pyval \<Rightarrow> pyval \<Rightarrow> pyval \<Rightarrow> payload" where
  "expert_payload name persona instructions =
     \<lparr>model = ''gpt-4-turbo-preview'',
      messages =
        [\<lparr>role = ''system'',
          content = PyStr (''You are an '' @ py_format name @ ''. '' @ py_format persona)\<rparr>,
         \<lparr>role = ''user'', content = instructions\<rparr>],
      temperature = 2 / 10\<rparr>"

definition handle_contact_expert ::
  "world \<Rightarrow> pyval \<Rightarrow> pyval \<Rightarrow> pyval \<Rightarrow> (exn + pyval) \<times> world" where
  "handle_contact_expert w name persona instructions =
     (case chat_completions_create (expert_payload name persona instructions) w of
        (Inl e, w1) \<Rightarrow>
          if is_OpenAIError e then (Inr PyNone, py_print (exn_str e) w1) else (Inl e, w1)
      | (Inr choices, w1) \<Rightarrow>
          (case choices of
             [] \<Rightarrow> (Inl (IndexError, ''list index out of range''), w1)
           | c # cs \<Rightarrow> (Inr c, w1)))"

text \<open>
  \<^verbatim>\<open>check_run\<close>: the polling loop has no bound, so the function is partial: \<open>None\<close> is the
  poll that never returns. The retrieval uses the thread and run id of the latest snapshot.
\<close>

partial_function (option) check_run :: "world \<Rightarrow> run \<Rightarrow> ((exn + run) \<times> world) option" where
  "check_run w run =
     (case runs_retrieve (thread_id run) (run_id run) w of
        (Inl e, w1) \<Rightarrow> Some (Inl e, w1)
      | (Inr run1, w1) \<Rightarrow>
          if status run1 = ''completed'' then
            Some (Inr run1, py_print (Fore_GREEN @ '' Run is completed.'' @ Style_RESET_ALL) w1)
          else if status run1 = ''expired'' \<or> status run1 = ''failed'' then
            Some (Inr run1,
              py_print (Fore_RED @ ''Run is '' @ status run1 @ ''.'' @ Style_RESET_ALL) w1)
          else if status run1 = ''requires_action'' then
            Some (Inr run1,
              py_print (Fore_YELLOW @ '' OpenAI: Running function...'' @ status run1 @ '' ''
                        @ Style_RESET_ALL) w1)
          else
            check_run
              (time_sleep 1
                (py_print (Fore_YELLOW @ '' OpenAI: Run is not yet completed. Waiting...''
                           @ status run1 @ '' '' @ Style_RESET_ALL) w1))
              run1)"

text \<open>
  The first pending tool call, \<^verbatim>\<open>run.required_action.submit_tool_outputs.tool_calls[0]\<close>.
\<close>

definition QUOTE :: char where
  "QUOTE = CHR 0x27"

definition key_error :: "string \<Rightarrow> exn" where
  "key_error k = (KeyError, [QUOTE] @ k @ [QUOTE])"

definition first_tool_call :: "run \<Rightarrow> exn + tool_call" where
  "first_tool_call run =
     (case required_action run of
        None \<Rightarrow>
          Inl (AttributeError,
            [QUOTE] @ ''NoneType'' @ [QUOTE] @ '' object has no attribute ''
            @ [QUOTE] @ ''submit_tool_outputs'' @ [QUOTE])
      | Some [] \<Rightarrow> Inl (IndexError, ''list index out of range'')
      | Some (tc # tcs) \<Rightarrow> Inr tc)"

text \<open>\<^verbatim>\<open>sep.join(xs)\<close> on strings.\<close>

fun str_join :: "string \<Rightarrow> string list \<Rightarrow> string" where
  "str_join sep [] = []"
| "str_join sep [x] = x"
| "str_join sep (x # y # ys) = x @ sep @ str_join sep (y # ys)"

text \<open>
  The body of \<^verbatim>\<open>if tool_call.function.name == "contact_expert":\<close>, which fills
  \<^verbatim>\<open>tool_outputs\<close>: the result is that list.
\<close>

definition contact_expert_call :: "world \<Rightarrow> tool_call \<Rightarrow> (exn + tool_output list) \<times> world" where
  "contact_expert_call w tool_call =
     (case arguments tool_call of
        Inl e \<Rightarrow> (Inl e, w)
      | Inr args \<Rightarrow>
          (case args ''name'' of
             None \<Rightarrow> (Inl (key_error ''name''), w)
           | Some name \<Rightarrow>
               (let persona = (case args ''persona'' of None \<Rightarrow> PyNone | Some p \<Rightarrow> p) in
                case args ''instructions'' of
                  None \<Rightarrow> (Inl (key_error ''instructions''), w)
                | Some instructions \<Rightarrow>
                    (let w1 = py_print
                           (Fore_BLUE @ '' '' @ py_format name @ '': ''
                            @ (if truthy persona then py_format persona else [])
                            @ [LF] @ py_format instructions @ '' '' @ Style_RESET_ALL) w
                     in case handle_contact_expert w1 name persona instructions of
                          (Inl e, w2) \<Rightarrow> (Inl e, w2)
                        | (Inr response, w2) \<Rightarrow>
                            if truthy response then
                              (Inr [\<lparr>tool_call_id = tc_id tool_call,
                                     output_text =
                                       str_join [LF, LF] [py_format response, continuation_prompt]\<rparr>],
                               py_print (Fore_CYAN @ '' '' @ py_format name @ '': ''
                                         @ py_format response @ '' '' @ Style_RESET_ALL) w2)
                            else (Inr [], w2)))))"

text \<open>
  The branch \<^verbatim>\<open>if run.status == "requires_action":\<close> of the driver's loop. Its result is
  the driver's variable \<^verbatim>\<open>run\<close> at the end of the branch: the answer of the submission
  when there was one, the polled snapshot otherwise.
\<close>

definition requires_action_branch :: "world \<Rightarrow> run \<Rightarrow> (exn + run) \<times> world" where
  "requires_action_branch w run =
     (case first_tool_call run of
        Inl e \<Rightarrow> (Inl e, w)
      | Inr tool_call \<Rightarrow>
          (case (if function_name tool_call = ''contact_expert''
                 then contact_expert_call w tool_call else (Inr [], w)) of
             (Inl e, w1) \<Rightarrow> (Inl e, w1)
           | (Inr tool_outputs, w1) \<Rightarrow>
               if tool_outputs \<noteq> [] then
                 runs_submit_tool_outputs (thread_id run) (run_id run) tool_outputs w1
               else (Inr run, w1)))"

text \<open>
  The \<^verbatim>\<open>for\<close> loop that prints the messages: \<^verbatim>\<open>message['content'][0]['text']['value']\<close>
  raises on a message with no content and on a first block that is not text.
\<close>

fun print_messages :: "world \<Rightarrow> message list \<Rightarrow> (exn + unit) \<times> world" where
  "print_messages w [] = (Inr (), w)"
| "print_messages w (m # ms) =
     (case msg_content m of
        [] \<Rightarrow> (Inl (IndexError, ''list index out of range''), w)
      | TextBlock v # bs \<Rightarrow>
          print_messages
            (py_print (Fore_BLUE @ '' Assistant: '' @ v @ '' '' @ Style_RESET_ALL) w) ms
      | ImageFileBlock # bs \<Rightarrow> (Inl (key_error ''text''), w))"

text \<open>
  The \<^verbatim>\<open>else\<close> branch up to the test for \<^verbatim>\<open>completed\<close>. \<^verbatim>\<open>last_id\<close> is \<^verbatim>\<open>None\<close> or a
  string; the cursor is sent when it is truthy. The last element's id is read before
  anything is printed. The result is the new \<^verbatim>\<open>last_id\<close>.
\<close>

definition messages_branch :: "world \<Rightarrow> run \<Rightarrow> string option \<Rightarrow> (exn + string option) \<times> world" where
  "messages_branch w run last_id =
     (let after = (case last_id of None \<Rightarrow> None | Some i \<Rightarrow> if i \<noteq> [] then Some i else None) in
      case messages_list (thread_id run) after w of
        (Inl e, w1) \<Rightarrow> (Inl e, w1)
      | (Inr data, w1) \<Rightarrow>
          if data = [] then (Inl (IndexError, ''list index out of range''), w1)
          else
            (case print_messages w1 data of
               (Inl e, w2) \<Rightarrow> (Inl e, w2)
             | (Inr u, w2) \<Rightarrow> (Inr (Some (msg_id (last data))), w2)))"

text \<open>
  One pass through the body of the driver's \<^verbatim>\<open>while True:\<close>, from the poll to the end
  of the chosen branch. It ends by an exception, by \<^verbatim>\<open>break\<close>, or by going round again with
  new values of the variables \<^verbatim>\<open>run\<close> and \<^verbatim>\<open>last_id\<close>. \<open>None\<close> is the pass whose poll
  never returns.
\<close>

datatype loop_exit = Raise exn | Break | Continue run "string option"

definition run_assistant_body ::
  "world \<Rightarrow> run \<Rightarrow> string option \<Rightarrow> (loop_exit \<times> world) option" where
  "run_assistant_body w run last_id =
     (case check_run w run of
        None \<Rightarrow> None
      | Some (Inl e, w1) \<Rightarrow> Some (Raise e, w1)
      | Some (Inr run1, w1) \<Rightarrow>
          if status run1 = ''requires_action'' then
            (case requires_action_branch w1 run1 of
               (Inl e, w2) \<Rightarrow> Some (Raise e, w2)
             | (Inr run2, w2) \<Rightarrow> Some (Continue run2 last_id, w2))
          else
            (case messages_branch w1 run1 last_id of
               (Inl e, w2) \<Rightarrow> Some (Raise e, w2)
             | (Inr last_id2, w2) \<Rightarrow>
                 if status run1 = ''completed'' then Some (Break, w2)
                 else Some (Continue run1 last_id2, w2)))"

text \<open>
  \<^verbatim>\<open>run_assistant\<close>: the loop over that body, with the variables \<^verbatim>\<open>run\<close> and \<^verbatim>\<open>last_id\<close>
  as arguments. \<open>None\<close> is the loop that never ends; \<open>Inl\<close> the exception that leaves it;
  \<open>Inr ()\<close> the \<^verbatim>\<open>break\<close>.
\<close>

partial_function (option) run_assistant_loop ::
  "world \<Rightarrow> run \<Rightarrow> string option \<Rightarrow> ((exn + unit) \<times> world) option" where
  "run_assistant_loop w run last_id =
     (case run_assistant_body w run last_id of
        None \<Rightarrow> None
      | Some (Raise e, w1) \<Rightarrow> Some (Inl e, w1)
      | Some (Break, w1) \<Rightarrow> Some (Inr (), w1)
      | Some (Continue run1 last_id1, w1) \<Rightarrow> run_assistant_loop w1 run1 last_id1)"

definition run_assistant :: "world \<Rightarrow> run \<Rightarrow> ((exn + unit) \<times> world) option" where
  "run_assistant w run = run_assistant_loop w run None"

text \<open>
  How the process ends: \<^verbatim>\<open>main\<close> returns, \<^verbatim>\<open>sys.exit(n)\<close>, or an exception that nothing
  catches (the interpreter prints the traceback and exits with code 1).
\<close>

datatype exit_status = Returned | SysExit int | Uncaught exn

fun exit_code :: "exit_status \<Rightarrow> int" where
  "exit_code Returned = 0"
| "exit_code (SysExit n) = n"
| "exit_code (Uncaught e) = 1"

definition main :: "world \<Rightarrow> (exit_status \<times> world) option" where
  "main w =
     (case client_init w of
        Some e \<Rightarrow> Some (Uncaught e, w)
      | None \<Rightarrow>
          (case handle_user_input w of
             (Inl e, w1) \<Rightarrow> Some (Uncaught e, w1)
           | (Inr user_input, w1) \<Rightarrow>
               if user_input = ''quit'' then Some (SysExit 0, w1)
               else
                 (case threads_create_and_run assistant_id user_input w1 of
                    (Inl e, w2) \<Rightarrow> Some (SysExit 1, py_print (exn_str e) w2)
                  | (Inr run, w2) \<Rightarrow>
                      (case run_assistant w2 run of
                         None \<Rightarrow> None
                       | Some (Inl e, w3) \<Rightarrow> Some (SysExit 1, py_print (exn_str e) w3)
                       | Some (Inr u, w3) \<Rightarrow> Some (Returned, w3)))))"

section \<open>The script runner\<close>

text \<open>
  \<^verbatim>\<open>execute_python_code_local\<close> works on the host: its files, its interpreter, its locale.
  Here the difference between text and bytes matters (the script is encoded before it is
  written, the child's output decoded after it is captured), so a Python \<^verbatim>\<open>str\<close> is the list
  of its code points (numbers below \<open>0x110000\<close>) and a file holds bytes.
\<close>

type_synonym unicode = "nat list"

type_synonym bytes = "char list"

type_synonym files = "string \<rightharpoonup> bytes"

text \<open>
  \<^verbatim>\<open>s.encode('utf-8')\<close>: one to four bytes for each code point, and \<^verbatim>\<open>UnicodeEncodeError\<close> on
  a surrogate (\<open>0xD800\<close> to \<open>0xDFFF\<close>), which a \<^verbatim>\<open>str\<close> may hold.
\<close>

definition utf8_char :: "nat \<Rightarrow> exn + bytes" where
  "utf8_char c =
     (if c < 0x80 then Inr [char_of c]
      else if c < 0x800 then Inr [char_of (0xC0 + c div 0x40), char_of (0x80 + c mod 0x40)]
      else if 0xD800 \<le> c \<and> c < 0xE000 then
        Inl (UnicodeEncodeError, ''surrogates not allowed'')
      else if c < 0x10000 then
        Inr [char_of (0xE0 + c div 0x1000), char_of (0x80 + c div 0x40 mod 0x40),
             char_of (0x80 + c mod 0x40)]
      else
        Inr [char_of (0xF0 + c div 0x40000), char_of (0x80 + c div 0x1000 mod 0x40),
             char_of (0x80 + c div 0x40 mod 0x40), char_of (0x80 + c mod 0x40)])"

fun utf8_encode :: "unicode \<Rightarrow> exn + bytes" where
  "utf8_encode [] = Inr []"
| "utf8_encode (c # cs) =
     (case utf8_char c of
        Inl e \<Rightarrow> Inl e
      | Inr bs \<Rightarrow>
          (case utf8_encode cs of
             Inl e \<Rightarrow> Inl e
           | Inr rest \<Rightarrow> Inr (bs @ rest)))"

text \<open>
  What the host decides, each read where the function makes the call:
  \<^item> \<open>named_temporary_file\<close>: \<^verbatim>\<open>NamedTemporaryFile(suffix='.py', delete=False)\<close> raises, or
    creates an empty file and gives its path;
  \<^item> \<open>write_error\<close>, \<open>flush_error\<close>: the exception \<^verbatim>\<open>temp_file.write\<close> or \<^verbatim>\<open>temp_file.flush\<close>
    raises, if any (a full disk);
  \<^item> \<open>spawn\<close>: what running a command line does: \<open>None\<close> when the child never exits;
    otherwise the files it leaves behind and either the exception of a child that could
    not be started, or the exit code and the bytes on standard output and standard error
    of one that ran;
  \<^item> \<open>decode\<close>: the text layer that \<^verbatim>\<open>text=True\<close> puts on the captured bytes (the locale's
    codec, strict, and the translation of line ends): a \<^verbatim>\<open>str\<close>, or \<^verbatim>\<open>UnicodeDecodeError\<close>;
  \<^item> \<open>remove_error\<close>: the exception with which \<^verbatim>\<open>os.remove\<close> is refused on a file that is
    there, if any (a directory that has become read-only).
\<close>

record host =
  files :: files
  named_temporary_file :: "exn + string"
  write_error :: "exn option"
  flush_error :: "exn option"
  spawn :: "string list \<Rightarrow> files \<Rightarrow> ((exn + int \<times> bytes \<times> bytes) \<times> files) option"
  decode :: "bytes \<Rightarrow> exn + unicode"
  remove_error :: "exn option"

text \<open>
  \<^verbatim>\<open>subprocess.run(..., capture_output=True, text=True, check=True)\<close>. The captured bytes
  are decoded, standard output first, before the exit code is looked at: the call ends by
  the exception of a failed start or of a failed decoding (\<open>RunRaised\<close>), by a completed
  process on exit code zero, by \<^verbatim>\<open>CalledProcessError\<close> on any other.
\<close>

datatype run_outcome =
    CompletedProcess unicode unicode
  | CalledProcessError int unicode unicode
  | RunRaised exn

definition subprocess_run :: "host \<Rightarrow> string list \<Rightarrow> (run_outcome \<times> host) option" where
  "subprocess_run h argv =
     (case spawn h argv (files h) of
        None \<Rightarrow> None
      | Some (Inl e, fs) \<Rightarrow> Some (RunRaised e, h\<lparr>files := fs\<rparr>)
      | Some (Inr (returncode, out_bytes, err_bytes), fs) \<Rightarrow>
          Some (case decode h out_bytes of
                  Inl e \<Rightarrow> RunRaised e
                | Inr out \<Rightarrow>
                    (case decode h err_bytes of
                       Inl e \<Rightarrow> RunRaised e
                     | Inr err \<Rightarrow>
                         if returncode = 0 then CompletedProcess out err
                         else CalledProcessError returncode out err),
                h\<lparr>files := fs\<rparr>))"

text \<open>
  \<^verbatim>\<open>os.remove\<close>: \<^verbatim>\<open>FileNotFoundError\<close> when the file is not there; when it is, the removal, or
  the host's refusal, which leaves the file.
\<close>

definition os_remove :: "host \<Rightarrow> string \<Rightarrow> (exn + unit) \<times> host" where
  "os_remove h path =
     (if path \<notin> dom (files h) then
        (Inl (FileNotFoundError,
              ''[Errno 2] No such file or directory: '' @ [QUOTE] @ path @ [QUOTE]), h)
      else
        (case remove_error h of
           Some e \<Rightarrow> (Inl e, h)
         | None \<Rightarrow> (Inr (), h\<lparr>files := (files h)(path := None)\<rparr>)))"

text \<open>
  The part of \<^verbatim>\<open>execute_python_code_local\<close> from the \<^verbatim>\<open>try\<close> on, reached once the script is
  in the file: the interpreter is run on the file; \<^verbatim>\<open>finally\<close> removes the file after the
  \<^verbatim>\<open>try\<close> has its result (the standard output, the standard error of a
  \<^verbatim>\<open>CalledProcessError\<close>, or any other exception); an exception of the removal replaces that
  result.
\<close>

definition run_and_remove :: "host \<Rightarrow> string \<Rightarrow> ((exn + unicode) \<times> host) option" where
  "run_and_remove h temp_file_name =
     (case subprocess_run h [''python'', temp_file_name] of
        None \<Rightarrow> None
      | Some (outcome, h2) \<Rightarrow>
          (let result =
                 (case outcome of
                    CompletedProcess out err \<Rightarrow> Inr out
                  | CalledProcessError returncode out err \<Rightarrow> Inr err
                  | RunRaised e \<Rightarrow> Inl e)
           in case os_remove h2 temp_file_name of
                (Inl e, h3) \<Rightarrow> Some (Inl e, h3)
              | (Inr u, h3) \<Rightarrow> Some (result, h3)))"

text \<open>
  \<^verbatim>\<open>execute_python_code_local\<close>. Creating the file, encoding the script, writing and
  flushing come before the \<^verbatim>\<open>try\<close>: an exception there leaves the function with the file
  (created with \<^verbatim>\<open>delete=False\<close>) still in place.
\<close>

definition execute_python_code_local :: "host \<Rightarrow> unicode \<Rightarrow> ((exn + unicode) \<times> host) option" where
  "execute_python_code_local h s =
     (case named_temporary_file h of
        Inl e \<Rightarrow> Some (Inl e, h)
      | Inr temp_file_name \<Rightarrow>
          (let h0 = h\<lparr>files := (files h)(temp_file_name \<mapsto> [])\<rparr> in
           case utf8_encode s of
             Inl e \<Rightarrow> Some (Inl e, h0)
           | Inr data \<Rightarrow>
               (case write_error h0 of
                  Some e \<Rightarrow> Some (Inl e, h0)
                | None \<Rightarrow>
                    (case flush_error h0 of
                       Some e \<Rightarrow> Some (Inl e, h0)
                     | None \<Rightarrow>
                         run_and_remove
                           (h0\<lparr>files := (files h0)(temp_file_name \<mapsto> data)\<rparr>)
                           temp_file_name))))"

section \<open>Notions used in the statements\<close>

text \<open>The four statuses on which the poller returns.\<close>

definition terminal_status :: "string \<Rightarrow> bool" where
  "terminal_status s =
     (s = ''completed'' \<or> s = ''expired'' \<or> s = ''failed'' \<or> s = ''requires_action'')"

fun is_sleep :: "event \<Rightarrow> bool" where
  "is_sleep (Sleep n) = True"
| "is_sleep e = False"

fun is_retrieve :: "event \<Rightarrow> bool" where
  "is_retrieve (RunsRetrieve t r) = True"
| "is_retrieve e = False"

fun is_chat_completion :: "event \<Rightarrow> bool" where
  "is_chat_completion (ChatCompletionsCreate p) = True"
| "is_chat_completion e = False"

fun is_readline :: "event \<Rightarrow> bool" where
  "is_readline ReadLine = True"
| "is_readline e = False"

text \<open>
  The states (world, \<^verbatim>\<open>run\<close>, \<^verbatim>\<open>last_id\<close>) at which the driver's loop starts a pass, from a
  given first state on.
\<close>

inductive reaches :: "world \<times> run \<times> string option \<Rightarrow> world \<times> run \<times> string option \<Rightarrow> bool" where
  start: "reaches s s"
| pass: "reaches s (w, run, last_id) \<Longrightarrow>
         run_assistant_body w run last_id = Some (Continue run1 last_id1, w1) \<Longrightarrow>
         reaches s (w1, run1, last_id1)"

section \<open>Example worlds\<close>

text \<open>
  Concrete inputs on which the theorems below are instantiated. In \<open>silent_world\<close> every
  remote call fails with an exception that is not an \<^verbatim>\<open>OpenAIError\<close>; the other worlds
  script the answers of some endpoints.
\<close>

definition example_run :: "string \<Rightarrow> run" where
  "example_run s = \<lparr>run_id = ''run_1'', thread_id = ''thread_1'', status = s, required_action = None\<rparr>"

definition no_answer :: exn where
  "no_answer = (OtherException, ''no answer scripted'')"

definition silent_world :: world where
  "silent_world =
     \<lparr>client_init = None, stdin = [],
      create_and_run_resps = sconst (Inl no_answer),
      retrieve_resps = sconst (Inl no_answer),
      submit_resps = sconst (Inl no_answer),
      messages_resps = sconst (Inl no_answer),
      completions_resps = sconst (Inl no_answer),
      trace = []\<rparr>"

definition polling_world :: world where
  "polling_world =
     silent_world\<lparr>retrieve_resps :=
       [Inr (example_run ''queued''), Inr (example_run ''in_progress''),
        Inr (example_run ''completed'')] @- sconst (Inl no_answer)\<rparr>"

text \<open>
  A run that requires action: one pending \<^verbatim>\<open>contact_expert\<close> call whose arguments have a
  name and instructions and no persona. In \<open>action_world reply\<close> the first poll answers
  with that run and the completion endpoint's first answer is \<open>reply\<close>; \<open>action_polled\<close> is
  that world after the poll.
\<close>

definition expert_call :: tool_call where
  "expert_call =
     \<lparr>tc_id = ''call_1'', function_name = ''contact_expert'',
      arguments = Inr [''name'' \<mapsto> PyStr ''Expert Mathematician'',
                       ''instructions'' \<mapsto> PyStr ''Compute 2 + 2.'']\<rparr>"

definition action_run :: run where
  "action_run =
     \<lparr>run_id = ''run_1'', thread_id = ''thread_1'', status = ''requires_action'',
      required_action = Some [expert_call]\<rparr>"

definition action_world :: "exn + pyval list \<Rightarrow> world" where
  "action_world reply =
     \<lparr>client_init = None, stdin = [],
      create_and_run_resps = sconst (Inl (OtherException, ''no answer scripted'')),
      retrieve_resps = Inr action_run ## sconst (Inl (OtherException, ''no answer scripted'')),
      submit_resps = Inr \<lparr>run_id = ''run_1'', thread_id = ''thread_1'', status = ''queued'',
                           required_action = None\<rparr>
                     ## sconst (Inl (OtherException, ''no answer scripted'')),
      messages_resps = sconst (Inl (OtherException, ''no answer scripted'')),
      completions_resps = reply ## sconst (Inl (OtherException, ''no answer scripted'')),
      trace = []\<rparr>"

definition action_polled :: "exn + pyval list \<Rightarrow> world" where
  "action_polled reply =
     (action_world reply)
       \<lparr>retrieve_resps := sconst (Inl (OtherException, ''no answer scripted'')),
        trace := [RunsRetrieve ''thread_1'' ''run_1'',
                  Print (Fore_YELLOW @ '' OpenAI: Running function...requires_action ''
                         @ Style_RESET_ALL)]\<rparr>"

text \<open>
  Worlds for the entry point: one whose input line is \<^verbatim>\<open>quit\<close>, and the worlds in which the
  user asks to plan a trip, every poll answers with the status \<open>st\<close> and the message
  listings answer as \<open>msgs\<close> says.
\<close>

definition quit_world :: world where
  "quit_world = silent_world\<lparr>stdin := [''quit'']\<rparr>"

definition user_message :: message where
  "user_message = \<lparr>msg_id = ''msg_1'', msg_content = [TextBlock ''Plan a trip'']\<rparr>"

definition trip_world :: "string \<Rightarrow> (exn + message list) stream \<Rightarrow> world" where
  "trip_world st msgs =
     silent_world
       \<lparr>stdin := [''Plan a trip''],
        create_and_run_resps := Inr (example_run ''queued'') ## sconst (Inl no_answer),
        retrieve_resps := sconst (Inr (example_run st)),
        messages_resps := msgs\<rparr>"

text \<open>
  Hosts for the script runner. The text of an ASCII string, the ASCII codec with the
  translation of line ends as the text layer, and a host with no files, on which every
  call succeeds, whose child process is given. The children: one that fails with exit
  code 1, one that prints and exits with code 0, one that runs \<open>self_deleting_script\<close>
  (which removes its own file, prints and exits with code 0), and one that exits with code
  0 after writing the byte \<open>0xFF\<close>, which no text layer of UTF-8 or ASCII decodes. On
  \<open>locked_host\<close> the removal of a file is refused. \<open>surrogate_script\<close> is the text
  \<^verbatim>\<open>print('\udc80')\<close>.
\<close>

definition ascii :: "string \<Rightarrow> unicode" where
  "ascii cs = map of_char cs"

fun universal_newlines :: "unicode \<Rightarrow> unicode" where
  "universal_newlines [] = []"
| "universal_newlines [c] = (if c = 13 then [10] else [c])"
| "universal_newlines (c # d # cs) =
     (if c = 13 \<and> d = 10 then 10 # universal_newlines cs
      else if c = 13 then 10 # universal_newlines (d # cs)
      else c # universal_newlines (d # cs))"

definition ascii_decode :: "bytes \<Rightarrow> exn + unicode" where
  "ascii_decode bs =
     (if list_all (\<lambda>b. of_char b < (128::nat)) bs then Inr (universal_newlines (ascii bs))
      else Inl (UnicodeDecodeError, ''ordinal not in range(128)''))"

definition script_host ::
  "(string list \<Rightarrow> files \<Rightarrow> ((exn + int \<times> bytes \<times> bytes) \<times> files) option) \<Rightarrow> host" where
  "script_host child =
     \<lparr>files = Map.empty, named_temporary_file = Inr ''/tmp/tmp_1.py'',
      write_error = None, flush_error = None, spawn = child, decode = ascii_decode,
      remove_error = None\<rparr>"

definition raising_child ::
  "string list \<Rightarrow> files \<Rightarrow> ((exn + int \<times> bytes \<times> bytes) \<times> files) option" where
  "raising_child argv fs = Some (Inr (1, [], ''ValueError: 1'' @ [LF]), fs)"

definition printing_child ::
  "string list \<Rightarrow> files \<Rightarrow> ((exn + int \<times> bytes \<times> bytes) \<times> files) option" where
  "printing_child argv fs = Some (Inr (0, ''1'' @ [LF], []), fs)"

definition self_deleting_script :: string where
  "self_deleting_script =
     ''import os, sys'' @ [LF] @ ''os.remove(sys.argv[0])'' @ [LF] @ ''print(1)''"

definition self_deleting_child ::
  "string list \<Rightarrow> files \<Rightarrow> ((exn + int \<times> bytes \<times> bytes) \<times> files) option" where
  "self_deleting_child argv fs =
     (if fs (argv ! 1) = Some self_deleting_script
      then Some (Inr (0, ''1'' @ [LF], []), fs(argv ! 1 := None))
      else Some (Inr (1, [], ''not the script''), fs))"

definition garbling_child ::
  "string list \<Rightarrow> files \<Rightarrow> ((exn + int \<times> bytes \<times> bytes) \<times> files) option" where
  "garbling_child argv fs = Some (Inr (0, [CHR 0xFF], []), fs)"


definition surrogate_script :: unicode where
  "surrogate_script = ascii ''print('' @ [39, 0xDC80, 39] @ ascii '')''"

section \<open>The poller\<close>

lemma check_run_terminal:
  assumes "shd (retrieve_resps w) = Inr r" and "terminal_status (status r)"
  shows "\<exists>s. check_run w run =
           Some (Inr r, py_print s (snd (runs_retrieve (thread_id run) (run_id run) w)))"
  using assms
  by (subst check_run.simps) (auto simp: runs_retrieve_def terminal_status_def)

lemma check_run_waiting:
  assumes "shd (retrieve_resps w) = Inr r" and "\<not> terminal_status (status r)"
  shows "\<exists>s. check_run w run =
           check_run (time_sleep 1 (py_print s (snd (runs_retrieve (thread_id run) (run_id run) w)))) r"
  using assms
  by (subst check_run.simps) (auto simp: runs_retrieve_def terminal_status_def)

lemma check_run_raises:
  assumes "shd (retrieve_resps w) = Inl e"
  shows "check_run w run = Some (Inl e, snd (runs_retrieve (thread_id run) (run_id run) w))"
  using assms
  by (subst check_run.simps) (auto simp: runs_retrieve_def)


lemma world_after_retrieve:
  "snd (runs_retrieve t i w) = w\<lparr>retrieve_resps := stl (retrieve_resps w), trace := trace w @ [RunsRetrieve t i]\<rparr>"
  by (simp add: runs_retrieve_def emit_def)

text \<open>
  Claim C3. Let the answers to the poller's retrievals be run snapshots of which the one at
  position \<open>n\<close> is the first whose status is \<^verbatim>\<open>completed\<close>, \<^verbatim>\<open>expired\<close>, \<^verbatim>\<open>failed\<close> or
  \<^verbatim>\<open>requires_action\<close>. Then \<^verbatim>\<open>check_run\<close> returns, and returns that snapshot; it has
  consumed exactly the \<open>n + 1\<close> answers up to it and changed nothing of the world but the
  trace; and between two retrievals it has slept once, for one second: the retrievals and
  sleeps alternate, \<open>n\<close> sleeps of 1 in all.
\<close>

theorem check_run_returns_at_first_terminal:
  assumes "\<forall>k<n. \<exists>q. retrieve_resps w !! k = Inr q \<and> \<not> terminal_status (status q)"
    and "retrieve_resps w !! n = Inr r"
    and "terminal_status (status r)"
  shows "\<exists>evs. check_run w run =
            Some (Inr r, w\<lparr>retrieve_resps := sdrop (Suc n) (retrieve_resps w),
                            trace := trace w @ evs\<rparr>)
          \<and> map is_sleep (filter (\<lambda>e. is_sleep e \<or> is_retrieve e) evs)
              = concat (replicate n [False, True]) @ [False]
          \<and> filter is_sleep evs = replicate n (Sleep 1)"
  using assms
proof (induction n arbitrary: w run)
  case 0
  then have hd: "shd (retrieve_resps w) = Inr r" by simp
  from check_run_terminal [OF hd 0(3), of run] obtain s where
    "check_run w run = Some (Inr r, py_print s (snd (runs_retrieve (thread_id run) (run_id run) w)))"
    by blast
  then have "check_run w run =
      Some (Inr r, w\<lparr>retrieve_resps := sdrop (Suc 0) (retrieve_resps w),
                      trace := trace w @ [RunsRetrieve (thread_id run) (run_id run), Print s]\<rparr>)"
    by (simp add: world_after_retrieve py_print_def emit_def)
  then show ?case
    by (intro exI [of _ "[RunsRetrieve (thread_id run) (run_id run), Print s]"]) simp
next
  case (Suc n)
  from Suc.prems(1) obtain q where q: "retrieve_resps w !! 0 = Inr q" "\<not> terminal_status (status q)"
    by blast
  then have hd: "shd (retrieve_resps w) = Inr q" by simp
  from check_run_waiting [OF hd q(2), of run] obtain s where
    step: "check_run w run =
      check_run (time_sleep 1 (py_print s (snd (runs_retrieve (thread_id run) (run_id run) w)))) q"
    by blast
  define w1 where "w1 = time_sleep 1 (py_print s (snd (runs_retrieve (thread_id run) (run_id run) w)))"
  have w1: "w1 = w\<lparr>retrieve_resps := stl (retrieve_resps w),
                   trace := trace w @ [RunsRetrieve (thread_id run) (run_id run), Print s, Sleep 1]\<rparr>"
    by (simp add: w1_def world_after_retrieve py_print_def time_sleep_def emit_def)
  have p1: "\<forall>k<n. \<exists>q. retrieve_resps w1 !! k = Inr q \<and> \<not> terminal_status (status q)"
    using Suc.prems(1) by (auto simp: w1)
  have p2: "retrieve_resps w1 !! n = Inr r"
    using Suc.prems(2) by (simp add: w1)
  from Suc.IH [OF p1 p2 Suc.prems(3), of q] obtain evs where
    evs: "check_run w1 q =
            Some (Inr r, w1\<lparr>retrieve_resps := sdrop (Suc n) (retrieve_resps w1),
                            trace := trace w1 @ evs\<rparr>)"
      "map is_sleep (filter (\<lambda>e. is_sleep e \<or> is_retrieve e) evs)
              = concat (replicate n [False, True]) @ [False]"
      "filter is_sleep evs = replicate n (Sleep 1)"
    by blast
  let ?evs = "[RunsRetrieve (thread_id run) (run_id run), Print s, Sleep 1] @ evs"
  have "check_run w run =
      Some (Inr r, w\<lparr>retrieve_resps := sdrop (Suc (Suc n)) (retrieve_resps w),
                      trace := trace w @ ?evs\<rparr>)"
  proof -
    have "check_run w run = check_run w1 q" using step unfolding w1_def .
    then show ?thesis using evs(1) by (simp add: w1)
  qed
  moreover have "map is_sleep (filter (\<lambda>e. is_sleep e \<or> is_retrieve e) ?evs)
              = concat (replicate (Suc n) [False, True]) @ [False]"
    using evs(2) by simp
  moreover have "filter is_sleep ?evs = replicate (Suc n) (Sleep 1)"
    using evs(3) by simp
  ultimately show ?case by blast
qed


theorem check_run_returns_at_first_terminal_witness:
  "\<exists>evs. check_run polling_world (example_run ''queued'') =
            Some (Inr (example_run ''completed''),
                  polling_world\<lparr>retrieve_resps := sconst (Inl no_answer), trace := evs\<rparr>)
          \<and> map is_sleep (filter (\<lambda>e. is_sleep e \<or> is_retrieve e) evs)
              = [False, True, False, True, False]
          \<and> filter is_sleep evs = [Sleep 1, Sleep 1]"
proof -
  have h1: "\<forall>k<2. \<exists>q. retrieve_resps polling_world !! k = Inr q \<and> \<not> terminal_status (status q)"
    by (auto simp: less_2_cases_iff polling_world_def silent_world_def example_run_def
        terminal_status_def)
  have h2: "retrieve_resps polling_world !! 2 = Inr (example_run ''completed'')"
    by (simp add: polling_world_def silent_world_def numeral_2_eq_2)
  have h3: "terminal_status (status (example_run ''completed''))"
    by (simp add: terminal_status_def example_run_def)
  have s: "sdrop (Suc 2) (retrieve_resps polling_world) = sconst (Inl no_answer)"
    by (simp add: polling_world_def silent_world_def numeral_2_eq_2)
  have t: "trace polling_world = []"
    by (simp add: polling_world_def silent_world_def)
  have r: "replicate 2 x = [x, x]" for x :: 'a
    by (simp add: numeral_2_eq_2)
  show ?thesis
    using check_run_returns_at_first_terminal [OF h1 h2 h3, of "example_run ''queued''"]
    unfolding s t r by simp
qed

section \<open>The driver: a pass that requires action\<close>

lemma body_requires_action:
  assumes "check_run w0 run0 = Some (Inr run, w)" and "status run = ''requires_action''"
  shows "run_assistant_body w0 run0 last_id =
           (case requires_action_branch w run of
              (Inl e, w2) \<Rightarrow> Some (Raise e, w2)
            | (Inr run2, w2) \<Rightarrow> Some (Continue run2 last_id, w2))"
  using assms by (simp add: run_assistant_body_def)

lemma body_other_status:
  assumes "check_run w0 run0 = Some (Inr run, w)" and "status run \<noteq> ''requires_action''"
  shows "run_assistant_body w0 run0 last_id =
           (case messages_branch w run last_id of
              (Inl e, w2) \<Rightarrow> Some (Raise e, w2)
            | (Inr last_id2, w2) \<Rightarrow>
                if status run = ''completed'' then Some (Break, w2)
                else Some (Continue run last_id2, w2))"
  using assms by (simp add: run_assistant_body_def)

lemma handle_contact_expert_reply:
  assumes "shd (completions_resps w) = Inr (c # cs)"
  shows "handle_contact_expert w name persona instructions =
           (Inr c, w\<lparr>completions_resps := stl (completions_resps w),
                      trace := trace w @ [ChatCompletionsCreate (expert_payload name persona instructions)]\<rparr>)"
  using assms by (simp add: handle_contact_expert_def chat_completions_create_def emit_def)

lemma handle_contact_expert_failed:
  assumes "shd (completions_resps w) = Inl e" and "is_OpenAIError e"
  shows "handle_contact_expert w name persona instructions =
           (Inr PyNone, w\<lparr>completions_resps := stl (completions_resps w),
                      trace := trace w @ [ChatCompletionsCreate (expert_payload name persona instructions),
                                           Print (exn_str e)]\<rparr>)"
  using assms by (simp add: handle_contact_expert_def chat_completions_create_def emit_def py_print_def)

lemma first_tool_call_Cons:
  "required_action run = Some (tc # tcs) \<Longrightarrow> first_tool_call run = Inr tc"
  by (simp add: first_tool_call_def)

lemma handle_contact_expert_trace:
  "\<exists>res evs. handle_contact_expert w name persona instructions =
       (res, w\<lparr>completions_resps := stl (completions_resps w),
               trace := trace w @ ChatCompletionsCreate (expert_payload name persona instructions) # evs\<rparr>)
     \<and> filter is_chat_completion evs = [] \<and> filter is_submit evs = []"
proof (cases "shd (completions_resps w)")
  case (Inl e)
  show ?thesis
  proof (cases "is_OpenAIError e")
    case True
    with Inl show ?thesis
      by (intro exI [of _ "Inr PyNone"] exI [of _ "[Print (exn_str e)]"])
        (simp add: handle_contact_expert_def chat_completions_create_def emit_def py_print_def)
  next
    case False
    with Inl show ?thesis
      by (intro exI [of _ "Inl e"] exI [of _ "[]"])
        (simp add: handle_contact_expert_def chat_completions_create_def emit_def)
  qed
next
  case (Inr choices)
  show ?thesis
  proof (cases choices)
    case Nil
    with Inr show ?thesis
      by (intro exI [of _ "Inl (IndexError, ''list index out of range'')"] exI [of _ "[]"])
        (simp add: handle_contact_expert_def chat_completions_create_def emit_def)
  next
    case (Cons c cs)
    with Inr show ?thesis
      by (intro exI [of _ "Inr c"] exI [of _ "[]"])
        (simp add: handle_contact_expert_def chat_completions_create_def emit_def)
  qed
qed

lemma action_world_poll:
  "check_run (action_world reply) (example_run ''queued'') = Some (Inr action_run, action_polled reply)"
  by (subst check_run.simps)
    (simp add: runs_retrieve_def action_world_def action_polled_def action_run_def
      example_run_def py_print_def emit_def)

lemma action_run_facts:
  "status action_run = ''requires_action''"
  "required_action action_run = Some (expert_call # [])"
  "function_name expert_call = ''contact_expert''"
  "arguments expert_call = Inr [''name'' \<mapsto> PyStr ''Expert Mathematician'',
                       ''instructions'' \<mapsto> PyStr ''Compute 2 + 2.'']"
  "[''name'' \<mapsto> PyStr ''Expert Mathematician'',
    ''instructions'' \<mapsto> PyStr ''Compute 2 + 2.''] ''name'' = Some (PyStr ''Expert Mathematician'')"
  "[''name'' \<mapsto> PyStr ''Expert Mathematician'',
    ''instructions'' \<mapsto> PyStr ''Compute 2 + 2.''] ''instructions'' = Some (PyStr ''Compute 2 + 2.'')"
  "[''name'' \<mapsto> PyStr ''Expert Mathematician'',
    ''instructions'' \<mapsto> PyStr ''Compute 2 + 2.''] ''persona'' = None"
  by (simp_all add: action_run_def expert_call_def)

lemma action_polled_facts:
  "shd (completions_resps (action_polled reply)) = reply"
  "filter is_submit (trace (action_polled reply)) = []"
  "filter is_chat_completion (trace (action_polled reply)) = []"
  "thread_id action_run = ''thread_1''" "run_id action_run = ''run_1''"
  "tc_id expert_call = ''call_1''"
  by (simp_all add: action_polled_def action_world_def action_run_def expert_call_def)

text \<open>
  Claim C2. In a pass of the driver's loop whose poll returns a run that requires action,
  whose first pending tool call is a \<^verbatim>\<open>contact_expert\<close> call (with the name and the
  instructions its schema requires), and in which the completion request answers with the
  non-empty text \<open>R\<close>, the pass ends with one submission to that run, of one tool output,
  for that tool call, whose text is \<open>R\<close>, two line feeds and the continuation prompt; no
  other submission is made before it.
\<close>

theorem submitted_output_is_reply_then_prompt:
  assumes "check_run w0 run0 = Some (Inr run, w)"
    and "status run = ''requires_action''"
    and "required_action run = Some (tc # tcs)"
    and "function_name tc = ''contact_expert''"
    and "arguments tc = Inr args"
    and "args ''name'' = Some name"
    and "args ''instructions'' = Some instructions"
    and "shd (completions_resps w) = Inr (PyStr R # cs)"
    and "R \<noteq> []"
  shows "\<exists>res w' evs.
           run_assistant_body w0 run0 last_id = Some (res, w')
         \<and> trace w' = trace w @ evs @
              [SubmitToolOutputs (thread_id run) (run_id run)
                 [\<lparr>tool_call_id = tc_id tc,
                   output_text = R @ [LF, LF] @ continuation_prompt\<rparr>]]
         \<and> filter is_submit evs = []"
proof -
  let ?persona = "case args ''persona'' of None \<Rightarrow> PyNone | Some p \<Rightarrow> p"
  let ?out = "[\<lparr>tool_call_id = tc_id tc, output_text = R @ [LF, LF] @ continuation_prompt\<rparr>]"
  obtain evs w1 where
    call: "contact_expert_call w tc = (Inr ?out, w1)"
    and w1: "trace w1 = trace w @ evs" "filter is_submit evs = []"
    using assms(8,9)
    using assms(5,6,7)
    by (simp add: contact_expert_call_def Let_def py_print_def emit_def
        handle_contact_expert_reply)
  obtain res w' where sub:
    "runs_submit_tool_outputs (thread_id run) (run_id run) ?out w1 = (res, w')"
    by fastforce
  then have tr: "trace w' = trace w1 @ [SubmitToolOutputs (thread_id run) (run_id run) ?out]"
    by (auto simp: runs_submit_tool_outputs_def emit_def)
  have "requires_action_branch w run = (res, w')"
    using call sub assms(4)
    by (simp add: requires_action_branch_def first_tool_call_Cons [OF assms(3)])
  then have "\<exists>x. run_assistant_body w0 run0 last_id = Some (x, w')"
    by (cases res) (simp_all add: body_requires_action [OF assms(1,2)])
  then show ?thesis using tr w1 by auto
qed


theorem submitted_output_is_reply_then_prompt_witness:
  "\<exists>res w'. run_assistant_body (action_world (Inr [PyStr ''4''])) (example_run ''queued'') None
               = Some (res, w')
           \<and> filter is_submit (trace w') =
               [SubmitToolOutputs ''thread_1'' ''run_1''
                  [\<lparr>tool_call_id = ''call_1'',
                    output_text = ''4'' @ [LF, LF] @ continuation_prompt\<rparr>]]"
proof -
  have r: "shd (completions_resps (action_polled (Inr [PyStr ''4'']))) = Inr (PyStr ''4'' # [])"
    by (simp add: action_polled_facts)
  have n: "''4'' \<noteq> []" by simp
  show ?thesis
    using submitted_output_is_reply_then_prompt
      [OF action_world_poll action_run_facts(1-6) r n, where last_id = None]
    by (auto simp: action_polled_facts)
qed

text \<open>
  Claim C4. In such a pass, when the completion request fails with an \<^verbatim>\<open>OpenAIError\<close> (the
  Expert Caller prints it and returns nothing), no tool output is submitted: the events of
  the pass hold no submission, the world differs from the polled one only by its trace and
  by the consumed completion answer, and the loop goes round again with the same run
  snapshot and the same cursor, so that its next step is to poll that run.
\<close>

theorem no_answer_submits_nothing:
  assumes "check_run w0 run0 = Some (Inr run, w)"
    and "status run = ''requires_action''"
    and "required_action run = Some (tc # tcs)"
    and "function_name tc = ''contact_expert''"
    and "arguments tc = Inr args"
    and "args ''name'' = Some name"
    and "args ''instructions'' = Some instructions"
    and "shd (completions_resps w) = Inl e"
    and "is_OpenAIError e"
  shows "\<exists>evs w'.
           w' = w\<lparr>completions_resps := stl (completions_resps w), trace := trace w @ evs\<rparr>
         \<and> run_assistant_body w0 run0 last_id = Some (Continue run last_id, w')
         \<and> filter is_submit evs = []
         \<and> run_assistant_loop w0 run0 last_id = run_assistant_loop w' run last_id"
proof -
  let ?persona = "case args ''persona'' of None \<Rightarrow> PyNone | Some p \<Rightarrow> p"
  let ?evs = "[Print (Fore_BLUE @ '' '' @ py_format name @ '': ''
                      @ (if truthy ?persona then py_format ?persona else [])
                      @ [LF] @ py_format instructions @ '' '' @ Style_RESET_ALL),
               ChatCompletionsCreate (expert_payload name ?persona instructions),
               Print (exn_str e)]"
  let ?w' = "w\<lparr>completions_resps := stl (completions_resps w), trace := trace w @ ?evs\<rparr>"
  have call: "contact_expert_call w tc = (Inr [], ?w')"
    using assms(5-9)
    by (simp add: contact_expert_call_def Let_def py_print_def emit_def
        handle_contact_expert_failed)
  have "requires_action_branch w run = (Inr run, ?w')"
    using call assms(4)
    by (simp add: requires_action_branch_def first_tool_call_Cons [OF assms(3)])
  then have body: "run_assistant_body w0 run0 last_id = Some (Continue run last_id, ?w')"
    by (simp add: body_requires_action [OF assms(1,2)])
  have "run_assistant_loop w0 run0 last_id = run_assistant_loop ?w' run last_id"
    by (subst run_assistant_loop.simps) (simp add: body)
  with body show ?thesis
    by (intro exI [of _ ?evs] exI [of _ ?w']) simp
qed

theorem no_answer_submits_nothing_witness:
  "\<exists>w'. run_assistant_body (action_world (Inl (OpenAIError, ''Rate limit reached'')))
             (example_run ''queued'') None
           = Some (Continue action_run None, w')
       \<and> filter is_submit (trace w') = []
       \<and> submit_resps w' = submit_resps (action_world (Inl (OpenAIError, ''Rate limit reached'')))"
proof -
  have r: "shd (completions_resps (action_polled (Inl (OpenAIError, ''Rate limit reached''))))
             = Inl (OpenAIError, ''Rate limit reached'')"
    by (simp add: action_polled_facts)
  have o: "is_OpenAIError (OpenAIError, ''Rate limit reached'')"
    by (simp add: is_OpenAIError_def)
  show ?thesis
    using no_answer_submits_nothing
      [OF action_world_poll action_run_facts(1-6) r o, where last_id = None]
    by (auto simp: action_polled_facts(2)) (simp add: action_polled_def)
qed

text \<open>
  Claim C8. In such a pass, when the completion request succeeds with the empty text, the
  driver does what it does when the reply is \<^verbatim>\<open>None\<close>: the test is the reply's truthiness.
  After the completion request nothing is printed and nothing is submitted, and the loop
  goes round again with the same run snapshot and cursor.
\<close>

theorem empty_reply_submits_nothing:
  assumes "check_run w0 run0 = Some (Inr run, w)"
    and "status run = ''requires_action''"
    and "required_action run = Some (tc # tcs)"
    and "function_name tc = ''contact_expert''"
    and "arguments tc = Inr args"
    and "args ''name'' = Some name"
    and "args ''instructions'' = Some instructions"
    and "shd (completions_resps w) = Inr (reply # cs)"
    and "reply = PyStr [] \<or> reply = PyNone"
  shows "\<exists>blue persona.
           run_assistant_body w0 run0 last_id =
             Some (Continue run last_id,
                   w\<lparr>completions_resps := stl (completions_resps w),
                     trace := trace w @
                       [Print blue, ChatCompletionsCreate (expert_payload name persona instructions)]\<rparr>)"
proof -
  let ?persona = "case args ''persona'' of None \<Rightarrow> PyNone | Some p \<Rightarrow> p"
  let ?blue = "Fore_BLUE @ '' '' @ py_format name @ '': ''
                      @ (if truthy ?persona then py_format ?persona else [])
                      @ [LF] @ py_format instructions @ '' '' @ Style_RESET_ALL"
  let ?w' = "w\<lparr>completions_resps := stl (completions_resps w),
               trace := trace w @
                 [Print ?blue, ChatCompletionsCreate (expert_payload name ?persona instructions)]\<rparr>"
  have "\<not> truthy reply" using assms(9) by auto
  then have call: "contact_expert_call w tc = (Inr [], ?w')"
    using assms(5-8)
    by (simp add: contact_expert_call_def Let_def py_print_def emit_def
        handle_contact_expert_reply)
  have "requires_action_branch w run = (Inr run, ?w')"
    using call assms(4)
    by (simp add: requires_action_branch_def first_tool_call_Cons [OF assms(3)])
  then have "run_assistant_body w0 run0 last_id = Some (Continue run last_id, ?w')"
    by (simp add: body_requires_action [OF assms(1,2)])
  then show ?thesis by blast
qed

theorem empty_reply_submits_nothing_witness:
  "\<exists>blue persona.
     run_assistant_body (action_world (Inr [PyStr []])) (example_run ''queued'') None =
       Some (Continue action_run None,
             (action_polled (Inr [PyStr []]))
               \<lparr>completions_resps := sconst (Inl (OtherException, ''no answer scripted'')),
                trace := trace (action_polled (Inr [PyStr []])) @
                  [Print blue,
                   ChatCompletionsCreate
                     (expert_payload (PyStr ''Expert Mathematician'') persona
                        (PyStr ''Compute 2 + 2.''))]\<rparr>)"
proof -
  have r: "shd (completions_resps (action_polled (Inr [PyStr []]))) = Inr (PyStr [] # [])"
    by (simp add: action_polled_facts)
  have o: "PyStr [] = PyStr [] \<or> PyStr [] = PyNone" by simp
  have s: "stl (completions_resps (action_polled (Inr [PyStr []])))
             = sconst (Inl (OtherException, ''no answer scripted''))"
    by (simp add: action_polled_def action_world_def)
  show ?thesis
    using empty_reply_submits_nothing
      [OF action_world_poll action_run_facts(1-6) r o, where last_id = None]
    unfolding s .
qed

text \<open>
  Claim C10. In such a pass, when the arguments have no \<^verbatim>\<open>persona\<close>, the one completion
  request of the pass carries the system message \<^verbatim>\<open>You are an <name>. None\<close>: the absent value
  is formatted into the text.
\<close>

theorem absent_persona_is_formatted_as_None:
  assumes "check_run w0 run0 = Some (Inr run, w)"
    and "status run = ''requires_action''"
    and "required_action run = Some (tc # tcs)"
    and "function_name tc = ''contact_expert''"
    and "arguments tc = Inr args"
    and "args ''name'' = Some name"
    and "args ''instructions'' = Some instructions"
    and "args ''persona'' = None"
  shows "\<exists>res w' evs.
           run_assistant_body w0 run0 last_id = Some (res, w')
         \<and> trace w' = trace w @ evs
         \<and> filter is_chat_completion evs =
             [ChatCompletionsCreate
                \<lparr>model = ''gpt-4-turbo-preview'',
                 messages =
                   [\<lparr>role = ''system'',
                     content = PyStr (''You are an '' @ py_format name @ ''. None'')\<rparr>,
                    \<lparr>role = ''user'', content = instructions\<rparr>],
                 temperature = 2 / 10\<rparr>]"
proof -
  let ?blue = "Fore_BLUE @ '' '' @ py_format name @ '': '' @ [LF] @ py_format instructions
               @ '' '' @ Style_RESET_ALL"
  let ?chat = "ChatCompletionsCreate (expert_payload name PyNone instructions)"
  obtain r evs1 where h:
    "handle_contact_expert (py_print ?blue w) name PyNone instructions =
       (r, (py_print ?blue w)\<lparr>completions_resps := stl (completions_resps (py_print ?blue w)),
               trace := trace (py_print ?blue w) @ ?chat # evs1\<rparr>)"
    "filter is_chat_completion evs1 = []"
    using handle_contact_expert_trace [of "py_print ?blue w" name PyNone instructions] by blast
  have "\<exists>res w1 evs. contact_expert_call w tc = (res, w1) \<and> trace w1 = trace w @ evs
          \<and> filter is_chat_completion evs = [?chat]"
    using assms(5-8) h
    by (cases r) (auto simp: contact_expert_call_def Let_def py_print_def emit_def)
  then obtain res1 w1 evs where c:
    "contact_expert_call w tc = (res1, w1)" "trace w1 = trace w @ evs"
    "filter is_chat_completion evs = [?chat]"
    by blast
  have "\<exists>res w2 evs2. requires_action_branch w run = (res, w2) \<and> trace w2 = trace w1 @ evs2
          \<and> filter is_chat_completion evs2 = []"
    using c(1) assms(4)
    by (cases res1)
      (auto simp: requires_action_branch_def first_tool_call_Cons [OF assms(3)]
        runs_submit_tool_outputs_def emit_def)
  then obtain res w2 evs2 where b:
    "requires_action_branch w run = (res, w2)" "trace w2 = trace w1 @ evs2"
    "filter is_chat_completion evs2 = []"
    by blast
  obtain x where x: "run_assistant_body w0 run0 last_id = Some (x, w2)"
    using b(1) by (cases res) (simp_all add: body_requires_action [OF assms(1,2)])
  have t: "trace w2 = trace w @ (evs @ evs2)"
    using b(2) c(2) by simp
  have f: "filter is_chat_completion (evs @ evs2) = [?chat]"
    using b(3) c(3) by simp
  show ?thesis
    using x t f
    by (intro exI [of _ x] exI [of _ w2] exI [of _ "evs @ evs2"])
      (simp add: expert_payload_def)
qed

theorem absent_persona_is_formatted_as_None_witness:
  "\<exists>res w'. run_assistant_body (action_world (Inr [PyStr ''4''])) (example_run ''queued'') None
               = Some (res, w')
           \<and> filter is_chat_completion (trace w') =
               [ChatCompletionsCreate
                  \<lparr>model = ''gpt-4-turbo-preview'',
                   messages =
                     [\<lparr>role = ''system'',
                       content = PyStr ''You are an Expert Mathematician. None''\<rparr>,
                      \<lparr>role = ''user'', content = PyStr ''Compute 2 + 2.''\<rparr>],
                   temperature = 2 / 10\<rparr>]"
proof -
  from absent_persona_is_formatted_as_None
    [OF action_world_poll [of "Inr [PyStr ''4'']"] action_run_facts(1-7), where last_id = None]
  obtain res w' evs where
    "run_assistant_body (action_world (Inr [PyStr ''4''])) (example_run ''queued'') None
       = Some (res, w')"
    "trace w' = trace (action_polled (Inr [PyStr ''4''])) @ evs"
    "filter is_chat_completion evs =
       [ChatCompletionsCreate
          \<lparr>model = ''gpt-4-turbo-preview'',
           messages =
             [\<lparr>role = ''system'',
               content = PyStr (''You are an '' @ py_format (PyStr ''Expert Mathematician'')
                                @ ''. None'')\<rparr>,
              \<lparr>role = ''user'', content = PyStr ''Compute 2 + 2.''\<rparr>],
           temperature = 2 / 10\<rparr>]"
    by blast
  then show ?thesis
    by (intro exI [of _ res] exI [of _ w']) (simp add: action_polled_facts)
qed

section \<open>The entry point\<close>

lemma handle_user_input_line:
  assumes "stdin w = l # ls"
  shows "handle_user_input w =
           (Inr l, w\<lparr>stdin := ls,
                     trace := trace w @
                       [Print (Fore_CYAN @ '' User Command:''), Print Style_RESET_ALL, ReadLine]\<rparr>)"
  using assms by (simp add: handle_user_input_def py_input_def py_print_def emit_def Let_def)

text \<open>
  Claim C7. When the client object is constructed and the line read from standard input is
  \<^verbatim>\<open>quit\<close>, \<^verbatim>\<open>main\<close> ends by \<^verbatim>\<open>sys.exit(0)\<close>: the exit code is 0, exactly one line has been
  read, and no remote call has been made (no conversation or run created, no completion
  requested); the answers of the remote service are all still to come.
\<close>

theorem quit_exits_zero_without_remote_calls:
  assumes "client_init w = None" and "stdin w = ''quit'' # rest"
  shows "\<exists>evs. main w = Some (SysExit 0, w\<lparr>stdin := rest, trace := trace w @ evs\<rparr>)
             \<and> exit_code (SysExit 0) = 0
             \<and> filter is_remote_call evs = []
             \<and> filter is_readline evs = [ReadLine]"
  using assms
  by (intro exI [of _ "[Print (Fore_CYAN @ '' User Command:''), Print Style_RESET_ALL, ReadLine]"])
    (simp add: main_def handle_user_input_line)

theorem quit_exits_zero_without_remote_calls_witness:
  "\<exists>evs. main quit_world = Some (SysExit 0, quit_world\<lparr>stdin := [], trace := evs\<rparr>)
         \<and> filter is_remote_call evs = []
         \<and> filter is_readline evs = [ReadLine]"
proof -
  have c: "client_init quit_world = None"
    by (simp add: quit_world_def silent_world_def)
  have s: "stdin quit_world = ''quit'' # []"
    by (simp add: quit_world_def silent_world_def)
  have t: "trace quit_world = []"
    by (simp add: quit_world_def silent_world_def)
  show ?thesis
    using quit_exits_zero_without_remote_calls [OF c s] unfolding t by simp
qed

section \<open>The driver: a pass that lists messages\<close>

lemma reaches_same_loop:
  assumes "reaches s t"
  shows "(case s of (w, run, last_id) \<Rightarrow> run_assistant_loop w run last_id) =
         (case t of (w, run, last_id) \<Rightarrow> run_assistant_loop w run last_id)"
  using assms
proof (induction rule: reaches.induct)
  case (start s)
  show ?case by simp
next
  case (pass s w run last_id run1 last_id1 w1)
  have "run_assistant_loop w run last_id = run_assistant_loop w1 run1 last_id1"
    by (subst run_assistant_loop.simps) (simp add: pass.hyps(2))
  with pass.IH show ?case by simp
qed

lemma body_empty_list:
  assumes "check_run w0 run0 = Some (Inr run, w)"
    and "status run \<noteq> ''requires_action''"
    and "shd (messages_resps w) = Inr []"
  shows "run_assistant_body w0 run0 last_id =
           Some (Raise (IndexError, ''list index out of range''),
                 w\<lparr>messages_resps := stl (messages_resps w),
                   trace := trace w @
                     [MessagesList (thread_id run)
                        (case last_id of None \<Rightarrow> None | Some i \<Rightarrow> if i \<noteq> [] then Some i else None)]\<rparr>)"
  using assms(3)
  by (simp add: body_other_status [OF assms(1,2)] messages_branch_def messages_list_def
      emit_def Let_def)

lemma main_after_start:
  assumes "client_init w = None"
    and "handle_user_input w = (Inr line, w1)"
    and "line \<noteq> ''quit''"
    and "threads_create_and_run assistant_id line w1 = (Inr run0, w2)"
  shows "main w =
           (case run_assistant w2 run0 of
              None \<Rightarrow> None
            | Some (Inl e, w3) \<Rightarrow> Some (SysExit 1, py_print (exn_str e) w3)
            | Some (Inr u, w3) \<Rightarrow> Some (Returned, w3))"
  using assms by (simp add: main_def)

lemma trip_world_start:
  "client_init (trip_world st msgs) = None"
  "handle_user_input (trip_world st msgs) =
     (Inr ''Plan a trip'',
      (trip_world st msgs)
        \<lparr>stdin := [],
         trace := [Print (Fore_CYAN @ '' User Command:''), Print Style_RESET_ALL, ReadLine]\<rparr>)"
  "''Plan a trip'' \<noteq> ''quit''"
  "threads_create_and_run assistant_id ''Plan a trip''
     ((trip_world st msgs)
        \<lparr>stdin := [],
         trace := [Print (Fore_CYAN @ '' User Command:''), Print Style_RESET_ALL, ReadLine]\<rparr>) =
     (Inr (example_run ''queued''),
      (trip_world st msgs)
        \<lparr>stdin := [], create_and_run_resps := sconst (Inl no_answer),
         trace := [Print (Fore_CYAN @ '' User Command:''), Print Style_RESET_ALL, ReadLine,
                   CreateAndRun assistant_id ''Plan a trip'']\<rparr>)"
  by (simp_all add: trip_world_def silent_world_def handle_user_input_line
      threads_create_and_run_def emit_def)

lemma check_run_completed:
  assumes "shd (retrieve_resps w) = Inr r" and "status r = ''completed''"
  shows "check_run w run =
           Some (Inr r, w\<lparr>retrieve_resps := stl (retrieve_resps w),
                          trace := trace w @
                            [RunsRetrieve (thread_id run) (run_id run),
                             Print (Fore_GREEN @ '' Run is completed.'' @ Style_RESET_ALL)]\<rparr>)"
  using assms
  by (subst check_run.simps) (simp add: runs_retrieve_def py_print_def emit_def)

lemma check_run_failed_or_expired:
  assumes "shd (retrieve_resps w) = Inr r" and "status r = ''expired'' \<or> status r = ''failed''"
  shows "check_run w run =
           Some (Inr r, w\<lparr>retrieve_resps := stl (retrieve_resps w),
                          trace := trace w @
                            [RunsRetrieve (thread_id run) (run_id run),
                             Print (Fore_RED @ ''Run is '' @ status r @ ''.'' @ Style_RESET_ALL)]\<rparr>)"
  using assms
  by (subst check_run.simps) (auto simp: runs_retrieve_def py_print_def emit_def)

text \<open>
  Claim C9. Let \<^verbatim>\<open>main\<close> have started the driver, and let the driver be at any pass of its
  loop. When the poll of that pass returns a run whose status is not \<^verbatim>\<open>requires_action\<close> and
  the message listing answers with the empty list, reading the last element's id raises
  \<^verbatim>\<open>IndexError\<close>: the pass ends by that exception right after the listing, the loop does not
  go round again, \<^verbatim>\<open>run_assistant\<close> ends by the exception, and \<^verbatim>\<open>main\<close> prints its text and
  ends by \<^verbatim>\<open>sys.exit(1)\<close>.
\<close>

theorem empty_message_list_exits_one:
  assumes "client_init w = None"
    and "handle_user_input w = (Inr line, w1)"
    and "line \<noteq> ''quit''"
    and "threads_create_and_run assistant_id line w1 = (Inr run0, w2)"
    and "reaches (w2, run0, None) (w3, run1, last_id)"
    and "check_run w3 run1 = Some (Inr run, w4)"
    and "status run \<noteq> ''requires_action''"
    and "shd (messages_resps w4) = Inr []"
  shows "\<exists>w5.
           w5 = w4\<lparr>messages_resps := stl (messages_resps w4),
                   trace := trace w4 @
                     [MessagesList (thread_id run)
                        (case last_id of None \<Rightarrow> None | Some i \<Rightarrow> if i \<noteq> [] then Some i else None)]\<rparr>
         \<and> run_assistant_body w3 run1 last_id =
             Some (Raise (IndexError, ''list index out of range''), w5)
         \<and> run_assistant w2 run0 = Some (Inl (IndexError, ''list index out of range''), w5)
         \<and> main w = Some (SysExit 1, w5\<lparr>trace := trace w5 @ [Print ''list index out of range'']\<rparr>)
         \<and> exit_code (SysExit 1) = 1"
proof -
  let ?w5 = "w4\<lparr>messages_resps := stl (messages_resps w4),
                   trace := trace w4 @
                     [MessagesList (thread_id run)
                        (case last_id of None \<Rightarrow> None | Some i \<Rightarrow> if i \<noteq> [] then Some i else None)]\<rparr>"
  have body: "run_assistant_body w3 run1 last_id =
           Some (Raise (IndexError, ''list index out of range''), ?w5)"
    by (rule body_empty_list [OF assms(6,7,8)])
  have "run_assistant_loop w3 run1 last_id = Some (Inl (IndexError, ''list index out of range''), ?w5)"
    by (subst run_assistant_loop.simps) (simp add: body)
  with reaches_same_loop [OF assms(5)]
  have ra: "run_assistant w2 run0 = Some (Inl (IndexError, ''list index out of range''), ?w5)"
    by (simp add: run_assistant_def)
  have "main w = Some (SysExit 1, ?w5\<lparr>trace := trace ?w5 @ [Print ''list index out of range'']\<rparr>)"
    by (simp add: main_after_start [OF assms(1-4)] ra py_print_def emit_def exn_str_def)
  with body ra show ?thesis by simp
qed

theorem empty_message_list_exits_one_witness:
  "\<exists>w'. main (trip_world ''completed'' (sconst (Inr []))) = Some (SysExit 1, w')
        \<and> trace w' =
            [Print (Fore_CYAN @ '' User Command:''), Print Style_RESET_ALL, ReadLine,
             CreateAndRun assistant_id ''Plan a trip'',
             RunsRetrieve ''thread_1'' ''run_1'',
             Print (Fore_GREEN @ '' Run is completed.'' @ Style_RESET_ALL),
             MessagesList ''thread_1'' None,
             Print ''list index out of range'']"
proof -
  let ?W = "trip_world ''completed'' (sconst (Inr []))"
  let ?w2 = "?W\<lparr>stdin := [], create_and_run_resps := sconst (Inl no_answer),
         trace := [Print (Fore_CYAN @ '' User Command:''), Print Style_RESET_ALL, ReadLine,
                   CreateAndRun assistant_id ''Plan a trip'']\<rparr>"
  let ?w4 = "?w2\<lparr>retrieve_resps := stl (retrieve_resps ?w2),
                    trace := trace ?w2 @
                      [RunsRetrieve (thread_id (example_run ''queued'')) (run_id (example_run ''queued'')),
                       Print (Fore_GREEN @ '' Run is completed.'' @ Style_RESET_ALL)]\<rparr>"
  have poll: "check_run ?w2 (example_run ''queued'') = Some (Inr (example_run ''completed''), ?w4)"
    by (rule check_run_completed) (simp_all add: trip_world_def example_run_def)
  have st: "status (example_run ''completed'') \<noteq> ''requires_action''"
    by (simp add: example_run_def)
  have ms: "shd (messages_resps ?w4) = Inr []"
    by (simp add: trip_world_def)
  from empty_message_list_exits_one
    [OF trip_world_start reaches.start poll st ms]
  show ?thesis
    by (simp add: example_run_def)
qed

section \<open>The driver on a run that has failed or expired\<close>

lemma loop_raise:
  "run_assistant_body w run l = Some (Raise e, w1) \<Longrightarrow>
   run_assistant_loop w run l = Some (Inl e, w1)"
  by (subst run_assistant_loop.simps) simp

lemma loop_continue:
  "run_assistant_body w run l = Some (Continue run1 l1, w1) \<Longrightarrow>
   run_assistant_loop w run l = run_assistant_loop w1 run1 l1"
  by (subst run_assistant_loop.simps) simp

lemma loop_break:
  "run_assistant_body w run l = Some (Break, w1) \<Longrightarrow>
   run_assistant_loop w run l = Some (Inr (), w1)"
  by (subst run_assistant_loop.simps) simp

lemma body_messages_listed:
  assumes "check_run w0 run0 = Some (Inr run, w)"
    and "status run \<noteq> ''requires_action''"
    and "status run \<noteq> ''completed''"
    and "shd (messages_resps w) = Inr [\<lparr>msg_id = i, msg_content = TextBlock v # bs\<rparr>]"
  shows "run_assistant_body w0 run0 last_id =
           Some (Continue run (Some i),
                 w\<lparr>messages_resps := stl (messages_resps w),
                   trace := trace w @
                     [MessagesList (thread_id run)
                        (case last_id of None \<Rightarrow> None | Some i \<Rightarrow> if i \<noteq> [] then Some i else None),
                      Print (Fore_BLUE @ '' Assistant: '' @ v @ '' '' @ Style_RESET_ALL)]\<rparr>)"
  using assms(3,4)
  by (simp add: body_other_status [OF assms(1,2)] messages_branch_def messages_list_def
      emit_def py_print_def Let_def)

lemma print_messages_world:
  "print_messages v ms = (res, v') \<Longrightarrow> retrieve_resps v' = retrieve_resps v"
  by (induction v ms arbitrary: res v' rule: print_messages.induct)
    (auto simp: py_print_def emit_def split: list.splits content_block.splits)

lemma messages_branch_world:
  assumes "messages_branch w run last_id = (res, w')"
  shows "retrieve_resps w' = retrieve_resps w"
  using assms
  by (auto simp: messages_branch_def messages_list_def emit_def Let_def
      split: sum.splits prod.splits if_splits dest!: print_messages_world)

lemma failed_run_never_breaks_aux:
  assumes "run_assistant_loop w run last_id = Some y"
    and "status r = ''expired'' \<or> status r = ''failed''"
  shows "retrieve_resps w = sconst (Inr r) \<longrightarrow> (\<forall>u w'. y \<noteq> (Inr u, w'))"
proof (rule run_assistant_loop.raw_induct
    [where P = "\<lambda>w run last_id y.
        retrieve_resps w = sconst (Inr r) \<longrightarrow> (\<forall>u w'. y \<noteq> (Inr u, w'))",
     OF _ assms(1)], goal_cases)
  case (1 loop w run last_id y)
  show ?case
  proof
    assume s: "retrieve_resps w = sconst (Inr r)"
    then have hd: "shd (retrieve_resps w) = Inr r" by simp
    let ?w1 = "w\<lparr>retrieve_resps := stl (retrieve_resps w),
                          trace := trace w @
                            [RunsRetrieve (thread_id run) (run_id run),
                             Print (Fore_RED @ ''Run is '' @ status r @ ''.'' @ Style_RESET_ALL)]\<rparr>"
    have poll: "check_run w run = Some (Inr r, ?w1)"
      by (rule check_run_failed_or_expired [OF hd assms(2)])
    have ne: "status r \<noteq> ''requires_action''" "status r \<noteq> ''completed''"
      using assms(2) by auto
    obtain res w2 where mb: "messages_branch ?w1 r last_id = (res, w2)"
      by fastforce
    have w2: "retrieve_resps w2 = sconst (Inr r)"
      using messages_branch_world [OF mb] s by simp
    have body: "run_assistant_body w run last_id =
        (case res of Inl e \<Rightarrow> Some (Raise e, w2) | Inr l2 \<Rightarrow> Some (Continue r l2, w2))"
      unfolding body_other_status [OF poll ne(1)] mb using ne(2)
      by (simp split: sum.splits)
    show "\<forall>u w'. y \<noteq> (Inr u, w')"
    proof (cases res)
      case (Inl e)
      then show ?thesis
        using 1(2) by (auto simp: body)
    next
      case (Inr l2)
      then have "loop w2 r l2 = Some y"
        using 1(2) by (simp add: body)
      from 1(1) [OF this] w2 show ?thesis by blast
    qed
  qed
qed

lemma failed_run_never_breaks:
  assumes "retrieve_resps w = sconst (Inr r)"
    and "status r = ''expired'' \<or> status r = ''failed''"
  shows "run_assistant w run \<noteq> Some (Inr u, w')"
  using failed_run_never_breaks_aux [OF _ assms(2), of w run None "(Inr u, w')"] assms(1)
  by (auto simp: run_assistant_def)

text \<open>
  Claim C1 says that the driver's loop exits on a run whose polled status is \<^verbatim>\<open>failed\<close> or
  \<^verbatim>\<open>expired\<close>, with no non-zero exit code. The poller does return on these statuses, but the
  driver leaves its loop on \<^verbatim>\<open>completed\<close> only: as long as every poll answers with such a
  run, \<^verbatim>\<open>run_assistant\<close> never ends by its \<^verbatim>\<open>break\<close> (lemma \<open>failed_run_never_breaks\<close>); it
  polls again at once, and ends, if at all, by an exception. The theorem runs \<^verbatim>\<open>main\<close> on a
  run that has failed, whose conversation holds the user's message and nothing after it:
  the status is printed, the message listed, the run polled and its status printed a
  second time, the listing after the cursor is empty, and the process exits with code 1.
\<close>

theorem failed_run_is_polled_again:
  "\<exists>w'. main (trip_world ''failed'' (Inr [user_message] ## sconst (Inr []))) = Some (SysExit 1, w')
        \<and> exit_code (SysExit 1) = 1
        \<and> trace w' =
            [Print (Fore_CYAN @ '' User Command:''), Print Style_RESET_ALL, ReadLine,
             CreateAndRun assistant_id ''Plan a trip'',
             RunsRetrieve ''thread_1'' ''run_1'',
             Print (Fore_RED @ ''Run is failed.'' @ Style_RESET_ALL),
             MessagesList ''thread_1'' None,
             Print (Fore_BLUE @ '' Assistant: Plan a trip '' @ Style_RESET_ALL),
             RunsRetrieve ''thread_1'' ''run_1'',
             Print (Fore_RED @ ''Run is failed.'' @ Style_RESET_ALL),
             MessagesList ''thread_1'' (Some ''msg_1''),
             Print ''list index out of range'']"
proof -
  let ?W = "trip_world ''failed'' (Inr [user_message] ## sconst (Inr []))"
  let ?q = "example_run ''queued''"
  let ?f = "example_run ''failed''"
  let ?red = "Print (Fore_RED @ ''Run is '' @ status ?f @ ''.'' @ Style_RESET_ALL)"
  let ?w2 = "?W\<lparr>stdin := [], create_and_run_resps := sconst (Inl no_answer),
         trace := [Print (Fore_CYAN @ '' User Command:''), Print Style_RESET_ALL, ReadLine,
                   CreateAndRun assistant_id ''Plan a trip'']\<rparr>"
  let ?w3 = "?w2\<lparr>retrieve_resps := stl (retrieve_resps ?w2),
                    trace := trace ?w2 @ [RunsRetrieve (thread_id ?q) (run_id ?q), ?red]\<rparr>"
  let ?w4 = "?w3\<lparr>messages_resps := stl (messages_resps ?w3),
                   trace := trace ?w3 @
                     [MessagesList (thread_id ?f) None,
                      Print (Fore_BLUE @ '' Assistant: '' @ ''Plan a trip'' @ '' '' @ Style_RESET_ALL)]\<rparr>"
  let ?w5 = "?w4\<lparr>retrieve_resps := stl (retrieve_resps ?w4),
                    trace := trace ?w4 @ [RunsRetrieve (thread_id ?f) (run_id ?f), ?red]\<rparr>"
  let ?w6 = "?w5\<lparr>messages_resps := stl (messages_resps ?w5),
                   trace := trace ?w5 @ [MessagesList (thread_id ?f) (Some ''msg_1'')]\<rparr>"
  have st: "status ?f = ''expired'' \<or> status ?f = ''failed''"
    "status ?f \<noteq> ''requires_action''" "status ?f \<noteq> ''completed''"
    by (simp_all add: example_run_def)
  have poll1: "check_run ?w2 ?q = Some (Inr ?f, ?w3)"
    by (rule check_run_failed_or_expired [OF _ st(1)]) (simp add: trip_world_def)
  have ms1: "shd (messages_resps ?w3) =
      Inr [\<lparr>msg_id = ''msg_1'', msg_content = TextBlock ''Plan a trip'' # []\<rparr>]"
    by (simp add: trip_world_def user_message_def)
  have pass1: "run_assistant_body ?w2 ?q None = Some (Continue ?f (Some ''msg_1''), ?w4)"
    using body_messages_listed [OF poll1 st(2,3) ms1, where last_id = None] by simp
  have poll2: "check_run ?w4 ?f = Some (Inr ?f, ?w5)"
    by (rule check_run_failed_or_expired [OF _ st(1)]) (simp add: trip_world_def)
  have ms2: "shd (messages_resps ?w5) = Inr []"
    by (simp add: trip_world_def)
  have pass2: "run_assistant_body ?w4 ?f (Some ''msg_1'') =
      Some (Raise (IndexError, ''list index out of range''), ?w6)"
    using body_empty_list [OF poll2 st(2) ms2, where last_id = "Some ''msg_1''"] by simp
  have ra: "run_assistant ?w2 ?q =
      Some (Inl (IndexError, ''list index out of range''), ?w6)"
    unfolding run_assistant_def loop_continue [OF pass1] by (rule loop_raise [OF pass2])
  have "main ?W = Some (SysExit 1, py_print (exn_str (IndexError, ''list index out of range'')) ?w6)"
    by (simp add: main_after_start [OF trip_world_start] ra)
  then show ?thesis
    by (simp add: py_print_def emit_def exn_str_def example_run_def)
qed

section \<open>The script runner\<close>

lemma utf8_encode_ascii:
  "list_all (\<lambda>c. of_char c < (128::nat)) cs \<Longrightarrow> utf8_encode (ascii cs) = Inr cs"
  by (induction cs) (simp_all add: ascii_def utf8_char_def)

lemma utf8_encode_surrogate:
  assumes "\<exists>c \<in> set s. 0xD800 \<le> c \<and> c < 0xE000"
  shows "utf8_encode s = Inl (UnicodeEncodeError, ''surrogates not allowed'')"
  using assms
proof (induction s)
  case Nil
  then show ?case by simp
next
  case (Cons c cs)
  show ?case
  proof (cases "0xD800 \<le> c \<and> c < 0xE000")
    case True
    then show ?thesis by (simp add: utf8_char_def)
  next
    case False
    with Cons.prems have "\<exists>c \<in> set cs. 0xD800 \<le> c \<and> c < 0xE000" by auto
    from Cons.IH [OF this] show ?thesis
      by (simp add: utf8_char_def)
  qed
qed


lemma execute_written:
  assumes "named_temporary_file h = Inr p"
    and "utf8_encode s = Inr data"
    and "write_error h = None"
    and "flush_error h = None"
  shows "execute_python_code_local h s = run_and_remove (h\<lparr>files := (files h)(p \<mapsto> data)\<rparr>) p"
  using assms by (simp add: execute_python_code_local_def Let_def)

lemma run_and_remove_ended:
  assumes "spawn h [''python'', p] (files h) = Some (outcome, fs)"
  shows "run_and_remove h p =
     Some (if p \<notin> dom fs then
             (Inl (FileNotFoundError,
                   ''[Errno 2] No such file or directory: '' @ [QUOTE] @ p @ [QUOTE]),
              h\<lparr>files := fs\<rparr>)
           else
             (case remove_error h of
                Some e \<Rightarrow> (Inl e, h\<lparr>files := fs\<rparr>)
              | None \<Rightarrow>
                  (case outcome of
                     Inl e \<Rightarrow> Inl e
                   | Inr (returncode, out_bytes, err_bytes) \<Rightarrow>
                       (case decode h out_bytes of
                          Inl e \<Rightarrow> Inl e
                        | Inr out \<Rightarrow>
                            (case decode h err_bytes of
                               Inl e \<Rightarrow> Inl e
                             | Inr err \<Rightarrow> Inr (if returncode = 0 then out else err))),
                   h\<lparr>files := fs(p := None)\<rparr>)))"
proof (cases outcome)
  case (Inl e)
  with assms show ?thesis
    by (cases "p \<in> dom fs"; cases "remove_error h")
      (simp_all add: run_and_remove_def subprocess_run_def os_remove_def Let_def)
next
  case (Inr x)
  obtain returncode out_bytes err_bytes where x: "x = (returncode, out_bytes, err_bytes)"
    by (cases x)
  show ?thesis
    using assms Inr x
    by (cases "decode h out_bytes"; cases "decode h err_bytes"; cases "returncode = 0";
        cases "p \<in> dom fs"; cases "remove_error h")
      (simp_all add: run_and_remove_def subprocess_run_def os_remove_def Let_def)
qed

lemma script_host_calls:
  "files (script_host child) = Map.empty"
  "named_temporary_file (script_host child) = Inr ''/tmp/tmp_1.py''"
  "write_error (script_host child) = None"
  "flush_error (script_host child) = None"
  "spawn (script_host child) = child"
  "decode (script_host child) = ascii_decode"
  "remove_error (script_host child) = None"
  by (simp_all add: script_host_def)


lemma example_scripts:
  "utf8_encode (ascii ''print(1)'') = Inr ''print(1)''"
  "utf8_encode (ascii ''raise ValueError(1)'') = Inr ''raise ValueError(1)''"
  "utf8_encode (ascii self_deleting_script) = Inr self_deleting_script"
  "utf8_encode surrogate_script = Inl (UnicodeEncodeError, ''surrogates not allowed'')"
  by (simp_all add: utf8_encode_ascii utf8_encode_surrogate self_deleting_script_def
      surrogate_script_def LF_def)

lemma example_outputs:
  "ascii_decode [] = Inr []"
  "ascii_decode (''1'' @ [LF]) = Inr [49, 10]"
  "ascii_decode (''ValueError: 1'' @ [LF]) = Inr (ascii ''ValueError: 1'' @ [10])"
  "ascii_decode [CHR 0xFF] = Inl (UnicodeDecodeError, ''ordinal not in range(128)'')"
  by (simp_all add: ascii_decode_def ascii_def LF_def)




text \<open>
  Claim C6 says that for every script the function returns the captured standard output on
  exit code zero and the captured standard error otherwise. It fails in two ways shown by
  the counterexample below, each with exit code zero: a script that removes its own file
  (the \<^verbatim>\<open>os.remove\<close> of the \<^verbatim>\<open>finally\<close> clause raises \<^verbatim>\<open>FileNotFoundError\<close>, which replaces the
  value the \<^verbatim>\<open>try\<close> was returning), and a child whose output does not decode
  (\<^verbatim>\<open>subprocess.run\<close> raises \<^verbatim>\<open>UnicodeDecodeError\<close>, which is not a \<^verbatim>\<open>CalledProcessError\<close>); a
  refused removal is a third, shown with claim C5. The amended claim, proved here: when the
  script has been run and the child has ended leaving the temporary file in place, its
  output and error output decode, and the removal is not refused, the function returns the
  decoded standard output on exit code zero and the decoded standard error on any other.
\<close>

theorem returns_stdout_or_stderr:
  assumes "named_temporary_file h = Inr p"
    and "utf8_encode s = Inr data"
    and "write_error h = None"
    and "flush_error h = None"
    and "spawn h [''python'', p] ((files h)(p \<mapsto> data))
           = Some (Inr (returncode, out_bytes, err_bytes), fs)"
    and "decode h out_bytes = Inr out"
    and "decode h err_bytes = Inr err"
    and "p \<in> dom fs"
    and "remove_error h = None"
  shows "execute_python_code_local h s =
           Some (Inr (if returncode = 0 then out else err), h\<lparr>files := fs(p := None)\<rparr>)"
proof -
  let ?h1 = "h\<lparr>files := (files h)(p \<mapsto> data)\<rparr>"
  have sp: "spawn ?h1 [''python'', p] (files ?h1)
              = Some (Inr (returncode, out_bytes, err_bytes), fs)"
    using assms(5) by simp
  show ?thesis
    unfolding execute_written [OF assms(1-4)] run_and_remove_ended [OF sp]
    using assms(6-9) by simp
qed

theorem returns_stdout_or_stderr_witness:
  "execute_python_code_local (script_host printing_child) (ascii ''print(1)'') =
     Some (Inr [49, 10], script_host printing_child)
   \<and> execute_python_code_local (script_host raising_child) (ascii ''raise ValueError(1)'') =
     Some (Inr (ascii ''ValueError: 1'' @ [10]), script_host raising_child)"
proof -
  have sp: "spawn (script_host printing_child) [''python'', ''/tmp/tmp_1.py'']
          ((files (script_host printing_child))(''/tmp/tmp_1.py'' \<mapsto> ''print(1)''))
        = Some (Inr (0, ''1'' @ [LF], []), Map.empty(''/tmp/tmp_1.py'' \<mapsto> ''print(1)''))"
    by (simp add: script_host_calls printing_child_def)
  have d1: "decode (script_host printing_child) (''1'' @ [LF]) = Inr [49, 10]"
    "decode (script_host printing_child) [] = Inr []"
    by (simp_all only: script_host_calls example_outputs)
  have i1: "''/tmp/tmp_1.py'' \<in> dom (Map.empty(''/tmp/tmp_1.py'' \<mapsto> ''print(1)''))"
    by simp
  have a: "execute_python_code_local (script_host printing_child) (ascii ''print(1)'') =
     Some (Inr [49, 10], script_host printing_child)"
    using returns_stdout_or_stderr
      [OF script_host_calls(2) example_scripts(1) script_host_calls(3,4) sp d1 i1
        script_host_calls(7)]
    by (simp add: script_host_def)
  have sp2: "spawn (script_host raising_child) [''python'', ''/tmp/tmp_1.py'']
          ((files (script_host raising_child))(''/tmp/tmp_1.py'' \<mapsto> ''raise ValueError(1)''))
        = Some (Inr (1, [], ''ValueError: 1'' @ [LF]),
                Map.empty(''/tmp/tmp_1.py'' \<mapsto> ''raise ValueError(1)''))"
    by (simp add: script_host_calls raising_child_def)
  have d2: "decode (script_host raising_child) [] = Inr []"
    "decode (script_host raising_child) (''ValueError: 1'' @ [LF]) = Inr (ascii ''ValueError: 1'' @ [10])"
    by (simp_all only: script_host_calls example_outputs)
  have i2: "''/tmp/tmp_1.py'' \<in> dom (Map.empty(''/tmp/tmp_1.py'' \<mapsto> ''raise ValueError(1)''))"
    by simp
  have b: "execute_python_code_local (script_host raising_child) (ascii ''raise ValueError(1)'') =
     Some (Inr (ascii ''ValueError: 1'' @ [10]), script_host raising_child)"
    using returns_stdout_or_stderr
      [OF script_host_calls(2) example_scripts(2) script_host_calls(3,4) sp2 d2 i2
        script_host_calls(7)]
    by (simp add: script_host_def)
  from a b show ?thesis by simp
qed

theorem self_deleting_script_counterexample:
  "spawn (script_host self_deleting_child) [''python'', ''/tmp/tmp_1.py'']
     (Map.empty(''/tmp/tmp_1.py'' \<mapsto> self_deleting_script))
     = Some (Inr (0, ''1'' @ [LF], []), Map.empty)
   \<and> execute_python_code_local (script_host self_deleting_child) (ascii self_deleting_script)
     = Some (Inl (FileNotFoundError,
                  ''[Errno 2] No such file or directory: '' @ [QUOTE] @ ''/tmp/tmp_1.py'' @ [QUOTE]),
             script_host self_deleting_child)
   \<and> spawn (script_host garbling_child) [''python'', ''/tmp/tmp_1.py'']
     (Map.empty(''/tmp/tmp_1.py'' \<mapsto> ''print(1)''))
     = Some (Inr (0, [CHR 0xFF], []), Map.empty(''/tmp/tmp_1.py'' \<mapsto> ''print(1)''))
   \<and> execute_python_code_local (script_host garbling_child) (ascii ''print(1)'')
     = Some (Inl (UnicodeDecodeError, ''ordinal not in range(128)''),
             script_host garbling_child)"
proof -
  let ?h1 = "(script_host self_deleting_child)
      \<lparr>files := (files (script_host self_deleting_child))(''/tmp/tmp_1.py'' \<mapsto> self_deleting_script)\<rparr>"
  have sp1: "spawn ?h1 [''python'', ''/tmp/tmp_1.py''] (files ?h1)
               = Some (Inr (0, ''1'' @ [LF], []), Map.empty)"
    by (simp add: script_host_calls self_deleting_child_def)
  have a: "execute_python_code_local (script_host self_deleting_child) (ascii self_deleting_script)
     = Some (Inl (FileNotFoundError,
                  ''[Errno 2] No such file or directory: '' @ [QUOTE] @ ''/tmp/tmp_1.py'' @ [QUOTE]),
             script_host self_deleting_child)"
    unfolding execute_written [OF script_host_calls(2) example_scripts(3) script_host_calls(3,4)]
      run_and_remove_ended [OF sp1]
    by (simp add: script_host_def)
  let ?h2 = "(script_host garbling_child)
      \<lparr>files := (files (script_host garbling_child))(''/tmp/tmp_1.py'' \<mapsto> ''print(1)'')\<rparr>"
  have sp2: "spawn ?h2 [''python'', ''/tmp/tmp_1.py''] (files ?h2)
               = Some (Inr (0, [CHR 0xFF], []), Map.empty(''/tmp/tmp_1.py'' \<mapsto> ''print(1)''))"
    by (simp add: script_host_calls garbling_child_def)
  have b: "execute_python_code_local (script_host garbling_child) (ascii ''print(1)'')
     = Some (Inl (UnicodeDecodeError, ''ordinal not in range(128)''),
             script_host garbling_child)"
    unfolding execute_written [OF script_host_calls(2) example_scripts(1) script_host_calls(3,4)]
      run_and_remove_ended [OF sp2]
    by (simp add: script_host_calls example_outputs)
  from a b show ?thesis
    by (simp add: script_host_calls self_deleting_child_def garbling_child_def)
qed

end
